theory Spec2Isabelle
  imports Main
begin

section \<open>Position model\<close>

text \<open>
  The scanning algorithms of PLTK work on an iterator / sentinel pair \<open>first\<close>, \<open>last\<close> into a
  sequence of elements. The embedding keeps the three things the code uses of an iterator:
  \<^item> a position is an index (a \<open>nat\<close>) into the underlying sequence, a list \<open>src\<close>;
  \<^item> \<open>first == last\<close> is equality of indices, \<open>first + 1\<close> and \<open>++first\<close> add one to the index
    (nothing in the code checks the result against \<open>last\<close>, and neither does the model);
  \<^item> \<open>*first\<close> is \<open>src ! first\<close>.
  The algorithms have no \<open>throw\<close> and no other error path: their C++ return type is the iterator
  type, and the model's is the position type. (The one error value of the model belongs to a
  call that does not compile, in the module; see there.)

  A C++ caller must pass a valid range: \<open>last\<close> is reachable from \<open>first\<close> and every position
  before \<open>last\<close> can be read. Anything else is undefined behaviour in C++, so the theorems about
  elements are stated for valid ranges.
\<close>

definition valid_range :: "'a list \<Rightarrow> nat \<Rightarrow> nat \<Rightarrow> bool" where
  "valid_range src first last' \<longleftrightarrow> first \<le> last' \<and> last' \<le> length src"

section \<open>The standard library's mismatch\<close>

text \<open>
  Modelled from the C++ standard (C++20, alg.mismatch), not from this repository:
  \<open>std::ranges::mismatch\<close> is the standard library's algorithm, which the pattern forms of
  \<open>scan\<close> and \<open>scan_not\<close> call. Both cursors walk forward together while neither range is
  exhausted and the projected elements satisfy \<open>pred\<close>, called as
  \<open>pred(proj1(*first1), proj2(*first2))\<close>; the result is the pair of positions reached, the
  struct \<open>in_in_result\<close> with the fields \<open>in1\<close> and \<open>in2\<close>. The standard defines the result for
  valid ranges only; there \<open>first < last\<close> below is the \<open>first != last\<close> of an implementation.
\<close>

record in_in_result =
  in1 :: nat
  in2 :: nat

function mismatch ::
  "'a list \<Rightarrow> nat \<Rightarrow> nat \<Rightarrow> 'b list \<Rightarrow> nat \<Rightarrow> nat \<Rightarrow>
   ('c \<Rightarrow> 'd \<Rightarrow> bool) \<Rightarrow> ('a \<Rightarrow> 'c) \<Rightarrow> ('b \<Rightarrow> 'd) \<Rightarrow> in_in_result" where
  "mismatch src1 first1 last1 src2 first2 last2 pred proj1 proj2 =
     (if first1 < last1 \<and> first2 < last2
         \<and> pred (proj1 (src1 ! first1)) (proj2 (src2 ! first2))
      then mismatch src1 (first1 + 1) last1 src2 (first2 + 1) last2 pred proj1 proj2
      else \<lparr>in1 = first1, in2 = first2\<rparr>)"
  by pat_completeness auto
termination
  by (relation "measure (\<lambda>(src1, first1, last1, rest). last1 - first1)") auto

declare mismatch.simps [simp del]

section \<open>The header: namespace detail of scanning_algorithms.hpp\<close>

text \<open>
  The defaults of the call signatures, \<open>std::ranges::equal_to\<close> for \<open>pred\<close> and
  \<open>std::identity\<close> for the projections, are the arguments \<open>(=)\<close> and \<open>id\<close> here.
\<close>

subsection \<open>scan_fn\<close>

text \<open>Overload 1: iterator / sentinel and a value.\<close>

definition detail_scan_fn_value ::
  "'a list \<Rightarrow> nat \<Rightarrow> nat \<Rightarrow> 'b \<Rightarrow> ('c \<Rightarrow> 'b \<Rightarrow> bool) \<Rightarrow> ('a \<Rightarrow> 'c) \<Rightarrow> nat" where
  "detail_scan_fn_value src first last' val pred proj =
     (if first = last' \<or> \<not> pred (proj (src ! first)) val then first else first + 1)"

text \<open>Overload 2: a range and a value; \<open>begin(r)\<close> is position 0 of \<open>r\<close>, \<open>end(r)\<close> its length.\<close>

definition detail_scan_fn_range_value ::
  "'a list \<Rightarrow> 'b \<Rightarrow> ('c \<Rightarrow> 'b \<Rightarrow> bool) \<Rightarrow> ('a \<Rightarrow> 'c) \<Rightarrow> nat" where
  "detail_scan_fn_range_value r val pred proj = detail_scan_fn_value r 0 (length r) val pred proj"

text \<open>Overload 3: iterator / sentinel for the source and for the pattern.\<close>

definition detail_scan_fn_seq ::
  "'a list \<Rightarrow> nat \<Rightarrow> nat \<Rightarrow> 'b list \<Rightarrow> nat \<Rightarrow> nat \<Rightarrow>
   ('c \<Rightarrow> 'd \<Rightarrow> bool) \<Rightarrow> ('a \<Rightarrow> 'c) \<Rightarrow> ('b \<Rightarrow> 'd) \<Rightarrow> nat" where
  "detail_scan_fn_seq src1 first1 last1 src2 first2 last2 pred proj1 proj2 =
     (let ends = mismatch src1 first1 last1 src2 first2 last2 pred proj1 proj2
      in if in2 ends = last2 then in1 ends else first1)"

text \<open>Overload 4: a range for the source, iterator / sentinel for the pattern.\<close>

definition detail_scan_fn_range_seq ::
  "'a list \<Rightarrow> 'b list \<Rightarrow> nat \<Rightarrow> nat \<Rightarrow>
   ('c \<Rightarrow> 'd \<Rightarrow> bool) \<Rightarrow> ('a \<Rightarrow> 'c) \<Rightarrow> ('b \<Rightarrow> 'd) \<Rightarrow> nat" where
  "detail_scan_fn_range_seq r src2 first last' pred proj1 proj2 =
     detail_scan_fn_seq r 0 (length r) src2 first last' pred proj1 proj2"

text \<open>Overload 5: iterator / sentinel for the source, a range for the pattern.\<close>

definition detail_scan_fn_seq_range ::
  "'a list \<Rightarrow> nat \<Rightarrow> nat \<Rightarrow> 'b list \<Rightarrow>
   ('c \<Rightarrow> 'd \<Rightarrow> bool) \<Rightarrow> ('a \<Rightarrow> 'c) \<Rightarrow> ('b \<Rightarrow> 'd) \<Rightarrow> nat" where
  "detail_scan_fn_seq_range src first last' r pred proj1 proj2 =
     detail_scan_fn_seq src first last' r 0 (length r) pred proj1 proj2"

text \<open>Overload 6: a range for the source and a range for the pattern.\<close>

definition detail_scan_fn_range_range ::
  "'a list \<Rightarrow> 'b list \<Rightarrow>
   ('c \<Rightarrow> 'd \<Rightarrow> bool) \<Rightarrow> ('a \<Rightarrow> 'c) \<Rightarrow> ('b \<Rightarrow> 'd) \<Rightarrow> nat" where
  "detail_scan_fn_range_range r1 r2 pred proj1 proj2 =
     detail_scan_fn_seq r1 0 (length r1) r2 0 (length r2) pred proj1 proj2"

subsection \<open>scan_if_fn\<close>

definition detail_scan_if_fn ::
  "'a list \<Rightarrow> nat \<Rightarrow> nat \<Rightarrow> ('c \<Rightarrow> bool) \<Rightarrow> ('a \<Rightarrow> 'c) \<Rightarrow> nat" where
  "detail_scan_if_fn src first last' pred proj =
     (if first = last' \<or> \<not> pred (proj (src ! first)) then first else first + 1)"

definition detail_scan_if_fn_range ::
  "'a list \<Rightarrow> ('c \<Rightarrow> bool) \<Rightarrow> ('a \<Rightarrow> 'c) \<Rightarrow> nat" where
  "detail_scan_if_fn_range r pred proj = detail_scan_if_fn r 0 (length r) pred proj"

subsection \<open>scan_not_fn\<close>

text \<open>Overload 1: iterator / sentinel and a value.\<close>

definition detail_scan_not_fn_value ::
  "'a list \<Rightarrow> nat \<Rightarrow> nat \<Rightarrow> 'b \<Rightarrow> ('c \<Rightarrow> 'b \<Rightarrow> bool) \<Rightarrow> ('a \<Rightarrow> 'c) \<Rightarrow> nat" where
  "detail_scan_not_fn_value src first last' val pred proj =
     (if first = last' \<or> pred (proj (src ! first)) val then first else first + 1)"

text \<open>Overload 2: a range and a value; \<open>begin(r)\<close> is position 0 of \<open>r\<close>, \<open>end(r)\<close> its length.\<close>

definition detail_scan_not_fn_range_value ::
  "'a list \<Rightarrow> 'b \<Rightarrow> ('c \<Rightarrow> 'b \<Rightarrow> bool) \<Rightarrow> ('a \<Rightarrow> 'c) \<Rightarrow> nat" where
  "detail_scan_not_fn_range_value r val pred proj = detail_scan_not_fn_value r 0 (length r) val pred proj"

text \<open>Overload 3: iterator / sentinel for the source and for the pattern.\<close>

definition detail_scan_not_fn_seq ::
  "'a list \<Rightarrow> nat \<Rightarrow> nat \<Rightarrow> 'b list \<Rightarrow> nat \<Rightarrow> nat \<Rightarrow>
   ('c \<Rightarrow> 'd \<Rightarrow> bool) \<Rightarrow> ('a \<Rightarrow> 'c) \<Rightarrow> ('b \<Rightarrow> 'd) \<Rightarrow> nat" where
  "detail_scan_not_fn_seq src1 first1 last1 src2 first2 last2 pred proj1 proj2 =
     (let ptrs = mismatch src1 first1 last1 src2 first2 last2 pred proj1 proj2
      in if in2 ptrs \<noteq> last2 then first1 + 1 else first1)"

text \<open>Overload 4: a range for the source, iterator / sentinel for the pattern.\<close>

definition detail_scan_not_fn_range_seq ::
  "'a list \<Rightarrow> 'b list \<Rightarrow> nat \<Rightarrow> nat \<Rightarrow>
   ('c \<Rightarrow> 'd \<Rightarrow> bool) \<Rightarrow> ('a \<Rightarrow> 'c) \<Rightarrow> ('b \<Rightarrow> 'd) \<Rightarrow> nat" where
  "detail_scan_not_fn_range_seq r src2 first last' pred proj1 proj2 =
     detail_scan_not_fn_seq r 0 (length r) src2 first last' pred proj1 proj2"

text \<open>Overload 5: iterator / sentinel for the source, a range for the pattern.\<close>

definition detail_scan_not_fn_seq_range ::
  "'a list \<Rightarrow> nat \<Rightarrow> nat \<Rightarrow> 'b list \<Rightarrow>
   ('c \<Rightarrow> 'd \<Rightarrow> bool) \<Rightarrow> ('a \<Rightarrow> 'c) \<Rightarrow> ('b \<Rightarrow> 'd) \<Rightarrow> nat" where
  "detail_scan_not_fn_seq_range src first last' r pred proj1 proj2 =
     detail_scan_not_fn_seq src first last' r 0 (length r) pred proj1 proj2"

text \<open>Overload 6: a range for the source and a range for the pattern.\<close>

definition detail_scan_not_fn_range_range ::
  "'a list \<Rightarrow> 'b list \<Rightarrow>
   ('c \<Rightarrow> 'd \<Rightarrow> bool) \<Rightarrow> ('a \<Rightarrow> 'c) \<Rightarrow> ('b \<Rightarrow> 'd) \<Rightarrow> nat" where
  "detail_scan_not_fn_range_range r1 r2 pred proj1 proj2 =
     detail_scan_not_fn_seq r1 0 (length r1) r2 0 (length r2) pred proj1 proj2"

subsection \<open>scan_if_not_fn\<close>

definition detail_scan_if_not_fn ::
  "'a list \<Rightarrow> nat \<Rightarrow> nat \<Rightarrow> ('c \<Rightarrow> bool) \<Rightarrow> ('a \<Rightarrow> 'c) \<Rightarrow> nat" where
  "detail_scan_if_not_fn src first last' pred proj =
     (if first = last' \<or> pred (proj (src ! first)) then first else first + 1)"

definition detail_scan_if_not_fn_range ::
  "'a list \<Rightarrow> ('c \<Rightarrow> bool) \<Rightarrow> ('a \<Rightarrow> 'c) \<Rightarrow> nat" where
  "detail_scan_if_not_fn_range r pred proj = detail_scan_if_not_fn r 0 (length r) pred proj"

section \<open>The module scanning_algorithms\<close>

text \<open>
  The module declares the same four function objects again, in namespace \<open>pltk\<close>, and two
  combinators after them. Each definition below is translated from the module's own text.

  Every \<open>operator()\<close> of the header is a \<open>const\<close> member function, and so is every one of the
  module but one: the module declares overload 1 of \<open>scan_fn\<close> without \<open>const\<close> (and without
  the default for \<open>pred\<close>). A non-const member function is viable on a non-const object only,
  so for this overload the model takes the qualification of the object it is called on, and a
  call that no overload accepts is ill-formed: it returns no position, which is the error value
  \<open>NoViableOverload\<close>. The exported object, \<open>inline constexpr scan_fn scan{}\<close>, is const.
\<close>

datatype object = ConstObject | NonConstObject

datatype error = NoViableOverload

definition module_scan :: object where
  "module_scan = ConstObject"

subsection \<open>scan_fn\<close>

text \<open>Overload 1: iterator / sentinel and a value; not a \<open>const\<close> member function.\<close>

definition module_scan_fn_value ::
  "object \<Rightarrow> 'a list \<Rightarrow> nat \<Rightarrow> nat \<Rightarrow> 'b \<Rightarrow> ('c \<Rightarrow> 'b \<Rightarrow> bool) \<Rightarrow> ('a \<Rightarrow> 'c)
   \<Rightarrow> error + nat" where
  "module_scan_fn_value self src first last' val pred proj =
     (case self of
        ConstObject \<Rightarrow> Inl NoViableOverload
      | NonConstObject \<Rightarrow>
          Inr (if first = last' \<or> \<not> pred (proj (src ! first)) val then first else first + 1))"

text \<open>
  Overload 2: a range and a value; \<open>begin(r)\<close> is position 0 of \<open>r\<close>, \<open>end(r)\<close> its length.
  It is a \<open>const\<close> member function, so the object it calls \<open>operator()\<close> on is const, and the
  five arguments (iterator, sentinel, value, \<open>pred\<close>, \<open>proj\<close>) fit overload 1 only.
\<close>

definition module_scan_fn_range_value ::
  "'a list \<Rightarrow> 'b \<Rightarrow> ('c \<Rightarrow> 'b \<Rightarrow> bool) \<Rightarrow> ('a \<Rightarrow> 'c) \<Rightarrow> error + nat" where
  "module_scan_fn_range_value r val pred proj =
     module_scan_fn_value ConstObject r 0 (length r) val pred proj"

text \<open>Overload 3: iterator / sentinel for the source and for the pattern.\<close>

definition module_scan_fn_seq ::
  "'a list \<Rightarrow> nat \<Rightarrow> nat \<Rightarrow> 'b list \<Rightarrow> nat \<Rightarrow> nat \<Rightarrow>
   ('c \<Rightarrow> 'd \<Rightarrow> bool) \<Rightarrow> ('a \<Rightarrow> 'c) \<Rightarrow> ('b \<Rightarrow> 'd) \<Rightarrow> nat" where
  "module_scan_fn_seq src1 first1 last1 src2 first2 last2 pred proj1 proj2 =
     (let ends = mismatch src1 first1 last1 src2 first2 last2 pred proj1 proj2
      in if in2 ends = last2 then in1 ends else first1)"

text \<open>Overload 4: a range for the source, iterator / sentinel for the pattern.\<close>

definition module_scan_fn_range_seq ::
  "'a list \<Rightarrow> 'b list \<Rightarrow> nat \<Rightarrow> nat \<Rightarrow>
   ('c \<Rightarrow> 'd \<Rightarrow> bool) \<Rightarrow> ('a \<Rightarrow> 'c) \<Rightarrow> ('b \<Rightarrow> 'd) \<Rightarrow> nat" where
  "module_scan_fn_range_seq r src2 first last' pred proj1 proj2 =
     module_scan_fn_seq r 0 (length r) src2 first last' pred proj1 proj2"

text \<open>Overload 5: iterator / sentinel for the source, a range for the pattern.\<close>

definition module_scan_fn_seq_range ::
  "'a list \<Rightarrow> nat \<Rightarrow> nat \<Rightarrow> 'b list \<Rightarrow>
   ('c \<Rightarrow> 'd \<Rightarrow> bool) \<Rightarrow> ('a \<Rightarrow> 'c) \<Rightarrow> ('b \<Rightarrow> 'd) \<Rightarrow> nat" where
  "module_scan_fn_seq_range src first last' r pred proj1 proj2 =
     module_scan_fn_seq src first last' r 0 (length r) pred proj1 proj2"

text \<open>Overload 6: a range for the source and a range for the pattern.\<close>

definition module_scan_fn_range_range ::
  "'a list \<Rightarrow> 'b list \<Rightarrow>
   ('c \<Rightarrow> 'd \<Rightarrow> bool) \<Rightarrow> ('a \<Rightarrow> 'c) \<Rightarrow> ('b \<Rightarrow> 'd) \<Rightarrow> nat" where
  "module_scan_fn_range_range r1 r2 pred proj1 proj2 =
     module_scan_fn_seq r1 0 (length r1) r2 0 (length r2) pred proj1 proj2"

subsection \<open>scan_if_fn\<close>

definition module_scan_if_fn ::
  "'a list \<Rightarrow> nat \<Rightarrow> nat \<Rightarrow> ('c \<Rightarrow> bool) \<Rightarrow> ('a \<Rightarrow> 'c) \<Rightarrow> nat" where
  "module_scan_if_fn src first last' pred proj =
     (if first = last' \<or> \<not> pred (proj (src ! first)) then first else first + 1)"

definition module_scan_if_fn_range ::
  "'a list \<Rightarrow> ('c \<Rightarrow> bool) \<Rightarrow> ('a \<Rightarrow> 'c) \<Rightarrow> nat" where
  "module_scan_if_fn_range r pred proj = module_scan_if_fn r 0 (length r) pred proj"

subsection \<open>scan_not_fn\<close>

text \<open>Overload 1: iterator / sentinel and a value.\<close>

definition module_scan_not_fn_value ::
  "'a list \<Rightarrow> nat \<Rightarrow> nat \<Rightarrow> 'b \<Rightarrow> ('c \<Rightarrow> 'b \<Rightarrow> bool) \<Rightarrow> ('a \<Rightarrow> 'c) \<Rightarrow> nat" where
  "module_scan_not_fn_value src first last' val pred proj =
     (if first = last' \<or> pred (proj (src ! first)) val then first else first + 1)"

text \<open>Overload 2: a range and a value; \<open>begin(r)\<close> is position 0 of \<open>r\<close>, \<open>end(r)\<close> its length.\<close>

definition module_scan_not_fn_range_value ::
  "'a list \<Rightarrow> 'b \<Rightarrow> ('c \<Rightarrow> 'b \<Rightarrow> bool) \<Rightarrow> ('a \<Rightarrow> 'c) \<Rightarrow> nat" where
  "module_scan_not_fn_range_value r val pred proj = module_scan_not_fn_value r 0 (length r) val pred proj"

text \<open>Overload 3: iterator / sentinel for the source and for the pattern.\<close>

definition module_scan_not_fn_seq ::
  "'a list \<Rightarrow> nat \<Rightarrow> nat \<Rightarrow> 'b list \<Rightarrow> nat \<Rightarrow> nat \<Rightarrow>
   ('c \<Rightarrow> 'd \<Rightarrow> bool) \<Rightarrow> ('a \<Rightarrow> 'c) \<Rightarrow> ('b \<Rightarrow> 'd) \<Rightarrow> nat" where
  "module_scan_not_fn_seq src1 first1 last1 src2 first2 last2 pred proj1 proj2 =
     (let ptrs = mismatch src1 first1 last1 src2 first2 last2 pred proj1 proj2
      in if in2 ptrs \<noteq> last2 then first1 + 1 else first1)"

text \<open>Overload 4: a range for the source, iterator / sentinel for the pattern.\<close>

definition module_scan_not_fn_range_seq ::
  "'a list \<Rightarrow> 'b list \<Rightarrow> nat \<Rightarrow> nat \<Rightarrow>
   ('c \<Rightarrow> 'd \<Rightarrow> bool) \<Rightarrow> ('a \<Rightarrow> 'c) \<Rightarrow> ('b \<Rightarrow> 'd) \<Rightarrow> nat" where
  "module_scan_not_fn_range_seq r src2 first last' pred proj1 proj2 =
     module_scan_not_fn_seq r 0 (length r) src2 first last' pred proj1 proj2"

text \<open>Overload 5: iterator / sentinel for the source, a range for the pattern.\<close>

definition module_scan_not_fn_seq_range ::
  "'a list \<Rightarrow> nat \<Rightarrow> nat \<Rightarrow> 'b list \<Rightarrow>
   ('c \<Rightarrow> 'd \<Rightarrow> bool) \<Rightarrow> ('a \<Rightarrow> 'c) \<Rightarrow> ('b \<Rightarrow> 'd) \<Rightarrow> nat" where
  "module_scan_not_fn_seq_range src first last' r pred proj1 proj2 =
     module_scan_not_fn_seq src first last' r 0 (length r) pred proj1 proj2"

text \<open>Overload 6: a range for the source and a range for the pattern.\<close>

definition module_scan_not_fn_range_range ::
  "'a list \<Rightarrow> 'b list \<Rightarrow>
   ('c \<Rightarrow> 'd \<Rightarrow> bool) \<Rightarrow> ('a \<Rightarrow> 'c) \<Rightarrow> ('b \<Rightarrow> 'd) \<Rightarrow> nat" where
  "module_scan_not_fn_range_range r1 r2 pred proj1 proj2 =
     module_scan_not_fn_seq r1 0 (length r1) r2 0 (length r2) pred proj1 proj2"

subsection \<open>scan_if_not_fn\<close>

definition module_scan_if_not_fn ::
  "'a list \<Rightarrow> nat \<Rightarrow> nat \<Rightarrow> ('c \<Rightarrow> bool) \<Rightarrow> ('a \<Rightarrow> 'c) \<Rightarrow> nat" where
  "module_scan_if_not_fn src first last' pred proj =
     (if first = last' \<or> pred (proj (src ! first)) then first else first + 1)"

definition module_scan_if_not_fn_range ::
  "'a list \<Rightarrow> ('c \<Rightarrow> bool) \<Rightarrow> ('a \<Rightarrow> 'c) \<Rightarrow> nat" where
  "module_scan_if_not_fn_range r pred proj = module_scan_if_not_fn r 0 (length r) pred proj"

subsection \<open>scan_excluding_fn\<close>

text \<open>
  A scanner is any callable \<open>(first, last) \<rightarrow> position\<close> (the concept \<open>scanning_algorithm\<close>);
  one that reads a sequence holds it in its closure, as an iterator does in C++.
\<close>

type_synonym scanner = "nat \<Rightarrow> nat \<Rightarrow> nat"

definition scan_excluding_fn :: "nat \<Rightarrow> nat \<Rightarrow> scanner \<Rightarrow> nat" where
  "scan_excluding_fn first last' scanner =
     (if scanner first last' \<noteq> first then first else first + 1)"

definition scan_excluding_fn_range :: "'a list \<Rightarrow> scanner \<Rightarrow> nat" where
  "scan_excluding_fn_range r scanner = scan_excluding_fn 0 (length r) scanner"

subsection \<open>scan_while_excluding_fn\<close>

text \<open>
  The \<open>while\<close> loop compares with \<open>!=\<close>, so nothing in its text bounds the number of
  iterations: the model may not return, and that is the value \<open>None\<close>.
\<close>

partial_function (option) scan_while_excluding_fn :: "nat \<Rightarrow> nat \<Rightarrow> scanner \<Rightarrow> nat option" where
  "scan_while_excluding_fn first last' scanner =
     (if first \<noteq> last' \<and> scanner first last' = first
      then scan_while_excluding_fn (first + 1) last' scanner
      else Some first)"

declare scan_while_excluding_fn.simps [code]

definition scan_while_excluding_fn_range :: "'a list \<Rightarrow> scanner \<Rightarrow> nat option" where
  "scan_while_excluding_fn_range r scanner = scan_while_excluding_fn 0 (length r) scanner"

section \<open>What the specification calls a match of the pattern\<close>

text \<open>
  In the specification's words: with \<open>N\<close> the length of the pattern, the source's first \<open>N\<close>
  elements exist, and each compares equal to the corresponding pattern element, through the
  comparison policy, each side transformed by its own projection. This predicate is written
  from those words, not from the code; the theorems below compare the code with it.
\<close>

definition prefix_equals_pattern ::
  "'a list \<Rightarrow> nat \<Rightarrow> nat \<Rightarrow> 'b list \<Rightarrow> nat \<Rightarrow> nat \<Rightarrow>
   ('c \<Rightarrow> 'd \<Rightarrow> bool) \<Rightarrow> ('a \<Rightarrow> 'c) \<Rightarrow> ('b \<Rightarrow> 'd) \<Rightarrow> bool" where
  "prefix_equals_pattern src1 first1 last1 src2 first2 last2 pred proj1 proj2 \<longleftrightarrow>
     last2 - first2 \<le> last1 - first1 \<and>
     (\<forall>i \<in> {0 ..< last2 - first2}.
        pred (proj1 (src1 ! (first1 + i))) (proj2 (src2 ! (first2 + i))))"

section \<open>Properties of mismatch\<close>

text \<open>
  The result of \<open>mismatch\<close> in the standard's terms: both cursors have advanced by the same
  number \<open>n\<close> of steps, within both ranges, over elements that all satisfy \<open>pred\<close>, and where
  neither range is exhausted the elements at offset \<open>n\<close> do not.
\<close>

lemma mismatch_offsets:
  "\<exists>n. mismatch src1 first1 last1 src2 first2 last2 pred proj1 proj2
          = \<lparr>in1 = first1 + n, in2 = first2 + n\<rparr>
     \<and> n \<le> last1 - first1 \<and> n \<le> last2 - first2
     \<and> (\<forall>i<n. pred (proj1 (src1 ! (first1 + i))) (proj2 (src2 ! (first2 + i))))
     \<and> (n < last1 - first1 \<and> n < last2 - first2
          \<longrightarrow> \<not> pred (proj1 (src1 ! (first1 + n))) (proj2 (src2 ! (first2 + n))))"
proof (induction src1 first1 last1 src2 first2 last2 pred proj1 proj2 rule: mismatch.induct)
  case (1 src1 first1 last1 src2 first2 last2 pred proj1 proj2)
  show ?case
  proof (cases "first1 < last1 \<and> first2 < last2
         \<and> pred (proj1 (src1 ! first1)) (proj2 (src2 ! first2))")
    case False
    have "mismatch src1 first1 last1 src2 first2 last2 pred proj1 proj2
          = \<lparr>in1 = first1, in2 = first2\<rparr>"
      by (subst mismatch.simps) (simp only: False if_False)
    then have "mismatch src1 first1 last1 src2 first2 last2 pred proj1 proj2
          = \<lparr>in1 = first1 + 0, in2 = first2 + 0\<rparr>"
      by simp
    moreover from False have "0 < last1 - first1 \<and> 0 < last2 - first2
          \<longrightarrow> \<not> pred (proj1 (src1 ! (first1 + 0))) (proj2 (src2 ! (first2 + 0)))"
      by auto
    ultimately show ?thesis by (intro exI[of _ 0]) simp
  next
    case True
    from "1.IH"[OF True] obtain n where
      n: "mismatch src1 (first1 + 1) last1 src2 (first2 + 1) last2 pred proj1 proj2
          = \<lparr>in1 = first1 + 1 + n, in2 = first2 + 1 + n\<rparr>"
         "n \<le> last1 - (first1 + 1)" "n \<le> last2 - (first2 + 1)"
         "\<forall>i<n. pred (proj1 (src1 ! (first1 + 1 + i))) (proj2 (src2 ! (first2 + 1 + i)))"
         "n < last1 - (first1 + 1) \<and> n < last2 - (first2 + 1)
          \<longrightarrow> \<not> pred (proj1 (src1 ! (first1 + 1 + n))) (proj2 (src2 ! (first2 + 1 + n)))"
      by blast
    have eq: "mismatch src1 first1 last1 src2 first2 last2 pred proj1 proj2
          = \<lparr>in1 = first1 + Suc n, in2 = first2 + Suc n\<rparr>"
    proof -
      have "mismatch src1 first1 last1 src2 first2 last2 pred proj1 proj2
            = mismatch src1 (first1 + 1) last1 src2 (first2 + 1) last2 pred proj1 proj2"
        by (subst mismatch.simps) (simp only: True simp_thms if_True)
      with n(1) show ?thesis by simp
    qed
    have all: "\<forall>i<Suc n. pred (proj1 (src1 ! (first1 + i))) (proj2 (src2 ! (first2 + i)))"
    proof (intro allI impI)
      fix i assume "i < Suc n"
      show "pred (proj1 (src1 ! (first1 + i))) (proj2 (src2 ! (first2 + i)))"
      proof (cases i)
        case 0 with True show ?thesis by simp
      next
        case (Suc j)
        with \<open>i < Suc n\<close> n(4) show ?thesis by simp
      qed
    qed
    have stop: "Suc n < last1 - first1 \<and> Suc n < last2 - first2
          \<longrightarrow> \<not> pred (proj1 (src1 ! (first1 + Suc n))) (proj2 (src2 ! (first2 + Suc n)))"
      using n(5) by auto
    from True n(2,3) have "Suc n \<le> last1 - first1" "Suc n \<le> last2 - first2" by auto
    with eq all stop show ?thesis by (intro exI[of _ "Suc n"]) simp
  qed
qed

lemma mismatch_in2_last2:
  assumes "first2 \<le> last2"
  shows "in2 (mismatch src1 first1 last1 src2 first2 last2 pred proj1 proj2) = last2
     \<longleftrightarrow> prefix_equals_pattern src1 first1 last1 src2 first2 last2 pred proj1 proj2"
proof -
  obtain n where
    n: "mismatch src1 first1 last1 src2 first2 last2 pred proj1 proj2
          = \<lparr>in1 = first1 + n, in2 = first2 + n\<rparr>"
       "n \<le> last1 - first1" "n \<le> last2 - first2"
       "\<forall>i<n. pred (proj1 (src1 ! (first1 + i))) (proj2 (src2 ! (first2 + i)))"
       "n < last1 - first1 \<and> n < last2 - first2
          \<longrightarrow> \<not> pred (proj1 (src1 ! (first1 + n))) (proj2 (src2 ! (first2 + n)))"
    using mismatch_offsets[of src1 first1 last1 src2 first2 last2 pred proj1 proj2] by blast
  show ?thesis
  proof
    assume "in2 (mismatch src1 first1 last1 src2 first2 last2 pred proj1 proj2) = last2"
    with n(1) assms have "n = last2 - first2" by simp
    with n(2,4) show "prefix_equals_pattern src1 first1 last1 src2 first2 last2 pred proj1 proj2"
      by (simp add: prefix_equals_pattern_def)
  next
    assume p: "prefix_equals_pattern src1 first1 last1 src2 first2 last2 pred proj1 proj2"
    have "\<not> n < last2 - first2"
    proof
      assume lt: "n < last2 - first2"
      with p have "n < last1 - first1" by (simp add: prefix_equals_pattern_def)
      with lt n(5) have "\<not> pred (proj1 (src1 ! (first1 + n))) (proj2 (src2 ! (first2 + n)))"
        by simp
      moreover from p lt have "pred (proj1 (src1 ! (first1 + n))) (proj2 (src2 ! (first2 + n)))"
        by (simp add: prefix_equals_pattern_def)
      ultimately show False by simp
    qed
    with n(3) have "n = last2 - first2" by simp
    with n(1) assms show "in2 (mismatch src1 first1 last1 src2 first2 last2 pred proj1 proj2) = last2"
      by simp
  qed
qed

lemma mismatch_in1_full:
  assumes "first2 \<le> last2"
    and "in2 (mismatch src1 first1 last1 src2 first2 last2 pred proj1 proj2) = last2"
  shows "in1 (mismatch src1 first1 last1 src2 first2 last2 pred proj1 proj2)
           = first1 + (last2 - first2)"
proof -
  obtain n where
    n: "mismatch src1 first1 last1 src2 first2 last2 pred proj1 proj2
          = \<lparr>in1 = first1 + n, in2 = first2 + n\<rparr>"
    using mismatch_offsets[of src1 first1 last1 src2 first2 last2 pred proj1 proj2] by blast
  with assms show ?thesis by simp
qed

text \<open>With an empty pattern or an empty source the loop of \<open>mismatch\<close> does not run.\<close>

lemma mismatch_empty_pattern:
  "mismatch src1 first1 last1 src2 first2 first2 pred proj1 proj2
     = \<lparr>in1 = first1, in2 = first2\<rparr>"
  by (subst mismatch.simps) simp

lemma mismatch_empty_source:
  "mismatch src1 first1 first1 src2 first2 last2 pred proj1 proj2
     = \<lparr>in1 = first1, in2 = first2\<rparr>"
  by (subst mismatch.simps) simp

section \<open>Properties of the loop of scan_while_excluding\<close>

text \<open>One unfolding of the loop: it exits with the current position, or it steps.\<close>

lemma scan_while_excluding_fn_stop:
  "\<not> (first \<noteq> last' \<and> scanner first last' = first)
   \<Longrightarrow> scan_while_excluding_fn first last' scanner = Some first"
  by (subst scan_while_excluding_fn.simps) (simp only: if_False)

lemma scan_while_excluding_fn_step:
  "first \<noteq> last' \<Longrightarrow> scanner first last' = first
   \<Longrightarrow> scan_while_excluding_fn first last' scanner
       = scan_while_excluding_fn (first + 1) last' scanner"
  by (subst scan_while_excluding_fn.simps) simp

text \<open>
  When \<open>last'\<close> is reachable from \<open>first\<close> the loop exits, at the first position from \<open>first\<close> on
  that is the end or where the scanner advances; every position before it was skipped because
  the scanner did not advance there.
\<close>

lemma scan_while_excluding_fn_returns:
  "first \<le> last' \<Longrightarrow>
   \<exists>r. scan_while_excluding_fn first last' scanner = Some r
       \<and> first \<le> r \<and> r \<le> last'
       \<and> (r = last' \<or> scanner r last' \<noteq> r)
       \<and> (\<forall>p. first \<le> p \<and> p < r \<longrightarrow> scanner p last' = p)"
proof (induction "last' - first" arbitrary: first)
  case 0
  then have "first = last'" by simp
  then have "scan_while_excluding_fn first last' scanner = Some first"
    by (simp add: scan_while_excluding_fn_stop)
  with \<open>first = last'\<close> show ?case by simp
next
  case (Suc k)
  then have lt: "first < last'" by simp
  show ?case
  proof (cases "scanner first last' = first")
    case False
    then have "scan_while_excluding_fn first last' scanner = Some first"
      by (simp add: scan_while_excluding_fn_stop)
    with False lt show ?thesis by simp
  next
    case True
    from Suc(2) have "k = last' - (first + 1)" by simp
    moreover from lt have "first + 1 \<le> last'" by simp
    ultimately obtain r where
      r: "scan_while_excluding_fn (first + 1) last' scanner = Some r"
         "first + 1 \<le> r" "r \<le> last'" "r = last' \<or> scanner r last' \<noteq> r"
         "\<forall>p. first + 1 \<le> p \<and> p < r \<longrightarrow> scanner p last' = p"
      using Suc(1)[of "first + 1"] by blast
    from lt True have "scan_while_excluding_fn first last' scanner = Some r"
      using r(1) by (simp add: scan_while_excluding_fn_step)
    moreover have "\<forall>p. first \<le> p \<and> p < r \<longrightarrow> scanner p last' = p"
    proof (intro allI impI)
      fix p assume p: "first \<le> p \<and> p < r"
      show "scanner p last' = p"
      proof (cases "p = first")
        case True with \<open>scanner first last' = first\<close> show ?thesis by simp
      next
        case False
        with p have "first + 1 \<le> p \<and> p < r" by simp
        with r(5) show ?thesis by blast
      qed
    qed
    ultimately show ?thesis using r(2,3,4) by simp
  qed
qed

text \<open>
  The hypothesis is needed: from a position behind \<open>last'\<close>, with a scanner that never
  advances, \<open>first != last\<close> stays true and the loop does not exit.
\<close>

lemma scan_while_excluding_fn_Some_only_if:
  assumes "scan_while_excluding_fn first last' scanner = Some r"
  shows "first \<le> last' \<or> (\<exists>p. scanner p last' \<noteq> p)"
proof (rule scan_while_excluding_fn.raw_induct
         [where P = "\<lambda>first last' scanner r. first \<le> last' \<or> (\<exists>p. scanner p last' \<noteq> p)",
          OF _ assms])
  fix swe :: "nat \<Rightarrow> nat \<Rightarrow> scanner \<Rightarrow> nat option" and first last' scanner r
  assume IH: "\<And>first last' scanner r. swe first last' scanner = Some r
                \<Longrightarrow> first \<le> last' \<or> (\<exists>p. scanner p last' \<noteq> p)"
    and step: "(if first \<noteq> last' \<and> scanner first last' = first
                then swe (first + 1) last' scanner else Some first) = Some r"
  show "first \<le> last' \<or> (\<exists>p. scanner p last' \<noteq> p)"
  proof (cases "first \<noteq> last' \<and> scanner first last' = first")
    case True
    with step have "swe (first + 1) last' scanner = Some r" by simp
    from IH[OF this] show ?thesis by auto
  next
    case False
    then show ?thesis by auto
  qed
qed

lemma scan_while_excluding_fn_never_returns:
  "last' < first \<Longrightarrow> (\<forall>p. scanner p last' = p)
   \<Longrightarrow> scan_while_excluding_fn first last' scanner = None"
  using scan_while_excluding_fn_Some_only_if[of first last' scanner]
  by (cases "scan_while_excluding_fn first last' scanner") auto

section \<open>The repository's tests, on the model\<close>

text \<open>
  The test file runs the header's operations on the source \<open>Hello, world!\<close>, with the
  patterns \<open>Hello\<close> and \<open>Bye\<close> and with comparison predicates that always (or never) hold.
  The model returns the positions the tests require.
\<close>

lemma tests_scan:
  "detail_scan_fn_value ''Hello, world!'' 0 13 (CHR ''H'') (=) id = 0 + 1"
  "detail_scan_fn_value ''Hello, world!'' 0 13 (CHR ''B'') (=) id = 0"
  "detail_scan_fn_seq ''Hello, world!'' 0 13 ''Hello'' 0 5 (=) id id = 0 + 5"
  "detail_scan_fn_seq ''Hello, world!'' 0 13 ''Bye'' 0 3 (=) id id = 0"
  "detail_scan_fn_value ''Hello, world!'' 0 13 (CHR ''B'') (\<lambda>a b. True) id = 0 + 1"
  "detail_scan_fn_value ''Hello, world!'' 0 13 (CHR ''H'') (\<lambda>a b. False) id = 0"
  "detail_scan_fn_seq ''Hello, world!'' 0 13 ''Bye'' 0 3 (\<lambda>a b. True) id id = 0 + 3"
  "detail_scan_fn_seq ''Hello, world!'' 0 13 ''Hello'' 0 5 (\<lambda>a b. False) id id = 0"
  "detail_scan_fn_range_range ''Hello, world!'' ''Hello'' (=) id id = 0 + 5"
  by code_simp+

lemma tests_scan_if:
  "detail_scan_if_fn ''Hello, world!'' 0 13 (\<lambda>a. True) id = 0 + 1"
  "detail_scan_if_fn ''Hello, world!'' 0 13 (\<lambda>a. False) id = 0"
  "detail_scan_if_not_fn ''Hello, world!'' 0 13 (\<lambda>a. False) id = 0 + 1"
  "detail_scan_if_not_fn ''Hello, world!'' 0 13 (\<lambda>a. True) id = 0"
  by code_simp+

lemma tests_scan_not:
  "detail_scan_not_fn_value ''Hello, world!'' 0 13 (CHR ''B'') (=) id = 0 + 1"
  "detail_scan_not_fn_value ''Hello, world!'' 0 13 (CHR ''H'') (=) id = 0"
  "detail_scan_not_fn_seq ''Hello, world!'' 0 13 ''Hello'' 0 5 (=) id id = 0"
  "detail_scan_not_fn_seq ''Hello, world!'' 0 13 ''Bye'' 0 3 (=) id id = 0 + 1"
  "detail_scan_not_fn_seq ''Hello, world!'' 0 13 ''Bye'' 0 3 (\<lambda>a b. True) id id = 0"
  "detail_scan_not_fn_seq ''Hello, world!'' 0 13 ''Hello'' 0 5 (\<lambda>a b. False) id id = 0 + 1"
  "detail_scan_not_fn_range_range ''Hello, world!'' ''Bye'' (=) id id = 0 + 1"
  by code_simp+

section \<open>scan, pattern form\<close>

text \<open>
  Claim C2. For valid source and pattern ranges, with \<open>N = last2 - first2\<close> the length of the
  pattern: the pattern form of \<open>scan\<close> returns \<open>first1 + N\<close> when the first \<open>N\<close> elements of the
  source exist and each satisfies \<open>pred\<close> with the corresponding pattern element (each side
  through its own projection), and returns \<open>first1\<close> itself otherwise, in particular when the
  source is shorter than the pattern or some element differs. No other position is returned.
\<close>

theorem scan_pattern_advances_by_length_or_not_at_all:
  assumes "valid_range src1 first1 last1" and "valid_range src2 first2 last2"
  shows "detail_scan_fn_seq src1 first1 last1 src2 first2 last2 pred proj1 proj2 =
           (if prefix_equals_pattern src1 first1 last1 src2 first2 last2 pred proj1 proj2
            then first1 + (last2 - first2) else first1)
       \<and> (last1 - first1 < last2 - first2
            \<or> (\<exists>i \<in> {0 ..< last2 - first2}.
                  \<not> pred (proj1 (src1 ! (first1 + i))) (proj2 (src2 ! (first2 + i))))
          \<longrightarrow> detail_scan_fn_seq src1 first1 last1 src2 first2 last2 pred proj1 proj2 = first1)"
proof -
  from assms(2) have le: "first2 \<le> last2" by (simp add: valid_range_def)
  have main: "detail_scan_fn_seq src1 first1 last1 src2 first2 last2 pred proj1 proj2 =
           (if prefix_equals_pattern src1 first1 last1 src2 first2 last2 pred proj1 proj2
            then first1 + (last2 - first2) else first1)"
  proof (cases "prefix_equals_pattern src1 first1 last1 src2 first2 last2 pred proj1 proj2")
    case True
    then have "in2 (mismatch src1 first1 last1 src2 first2 last2 pred proj1 proj2) = last2"
      using mismatch_in2_last2[OF le] by blast
    with True mismatch_in1_full[OF le] show ?thesis
      by (simp add: detail_scan_fn_seq_def Let_def)
  next
    case False
    then have "in2 (mismatch src1 first1 last1 src2 first2 last2 pred proj1 proj2) \<noteq> last2"
      using mismatch_in2_last2[OF le] by blast
    with False show ?thesis
      by (simp add: detail_scan_fn_seq_def Let_def)
  qed
  have "\<not> prefix_equals_pattern src1 first1 last1 src2 first2 last2 pred proj1 proj2"
    if "last1 - first1 < last2 - first2
            \<or> (\<exists>i \<in> {0 ..< last2 - first2}.
                  \<not> pred (proj1 (src1 ! (first1 + i))) (proj2 (src2 ! (first2 + i))))"
    using that by (auto simp: prefix_equals_pattern_def)
  with main show ?thesis by simp
qed

theorem scan_pattern_witness:
  "valid_range ''Hello, world!'' 0 13 \<and> valid_range ''Hello'' 0 5 \<and> valid_range ''Bye'' 0 3
   \<and> detail_scan_fn_seq ''Hello, world!'' 0 13 ''Hello'' 0 5 (=) id id = 5
   \<and> detail_scan_fn_seq ''Hello, world!'' 0 13 ''Bye'' 0 3 (=) id id = 0"
proof -
  have v1: "valid_range ''Hello, world!'' 0 13" by (simp add: valid_range_def)
  have v2: "valid_range ''Hello'' 0 5" by (simp add: valid_range_def)
  have v3: "valid_range ''Bye'' 0 3" by (simp add: valid_range_def)
  have p: "prefix_equals_pattern ''Hello, world!'' 0 13 ''Hello'' 0 5 (=) id id"
    by code_simp
  have q: "\<not> prefix_equals_pattern ''Hello, world!'' 0 13 ''Bye'' 0 3 (=) id id"
    by code_simp
  from scan_pattern_advances_by_length_or_not_at_all[OF v1 v2, of "(=)" id id] p
  have a: "detail_scan_fn_seq ''Hello, world!'' 0 13 ''Hello'' 0 5 (=) id id = 5" by simp
  from scan_pattern_advances_by_length_or_not_at_all[OF v1 v3, of "(=)" id id] q
  have b: "detail_scan_fn_seq ''Hello, world!'' 0 13 ''Bye'' 0 3 (=) id id = 0" by simp
  from v1 v2 v3 a b show ?thesis by simp
qed

text \<open>
  Claim C7. A pattern of zero elements (\<open>first2 = last2\<close>, or an empty container) always
  succeeds with zero advancement: \<open>scan\<close> returns the input cursor, whatever the source is,
  the empty source included.
\<close>

theorem scan_empty_pattern_returns_input:
  "detail_scan_fn_seq src1 first1 last1 src2 first2 first2 pred proj1 proj2 = first1
   \<and> detail_scan_fn_seq_range src1 first1 last1 [] pred proj1 proj2 = first1
   \<and> detail_scan_fn_seq [] 0 0 src2 first2 first2 pred proj1 proj2 = 0"
  by (simp add: detail_scan_fn_seq_def detail_scan_fn_seq_range_def mismatch_empty_pattern)

section \<open>scan_not, pattern form\<close>

text \<open>
  Claim C3. For valid source and pattern ranges, with \<open>N = last2 - first2\<close>: the pattern form
  of \<open>scan_not\<close> returns \<open>first1\<close> when the first \<open>N\<close> elements of the source match the pattern
  and \<open>first1 + 1\<close> otherwise, so it advances by exactly one (never by \<open>N\<close>) if and only if the
  source is shorter than the pattern or some element differs. The header and the module agree.
\<close>

theorem scan_not_pattern_advances_by_one_iff_no_match:
  assumes "valid_range src1 first1 last1" and "valid_range src2 first2 last2"
  shows "detail_scan_not_fn_seq src1 first1 last1 src2 first2 last2 pred proj1 proj2 =
           (if prefix_equals_pattern src1 first1 last1 src2 first2 last2 pred proj1 proj2
            then first1 else first1 + 1)
       \<and> (detail_scan_not_fn_seq src1 first1 last1 src2 first2 last2 pred proj1 proj2 = first1 + 1
            \<longleftrightarrow> last1 - first1 < last2 - first2
                 \<or> (\<exists>i \<in> {0 ..< last2 - first2}.
                       \<not> pred (proj1 (src1 ! (first1 + i))) (proj2 (src2 ! (first2 + i)))))
       \<and> module_scan_not_fn_seq src1 first1 last1 src2 first2 last2 pred proj1 proj2 =
           (if prefix_equals_pattern src1 first1 last1 src2 first2 last2 pred proj1 proj2
            then first1 else first1 + 1)"
proof -
  from assms(2) have le: "first2 \<le> last2" by (simp add: valid_range_def)
  let ?m = "prefix_equals_pattern src1 first1 last1 src2 first2 last2 pred proj1 proj2"
  have in2: "in2 (mismatch src1 first1 last1 src2 first2 last2 pred proj1 proj2) = last2 \<longleftrightarrow> ?m"
    by (rule mismatch_in2_last2[OF le])
  have d: "detail_scan_not_fn_seq src1 first1 last1 src2 first2 last2 pred proj1 proj2 =
           (if ?m then first1 else first1 + 1)"
    using in2 by (simp add: detail_scan_not_fn_seq_def Let_def)
  have m: "module_scan_not_fn_seq src1 first1 last1 src2 first2 last2 pred proj1 proj2 =
           (if ?m then first1 else first1 + 1)"
    using in2 by (simp add: module_scan_not_fn_seq_def Let_def)
  have n: "\<not> ?m \<longleftrightarrow> last1 - first1 < last2 - first2
                 \<or> (\<exists>i \<in> {0 ..< last2 - first2}.
                       \<not> pred (proj1 (src1 ! (first1 + i))) (proj2 (src2 ! (first2 + i))))"
    by (auto simp: prefix_equals_pattern_def)
  have "detail_scan_not_fn_seq src1 first1 last1 src2 first2 last2 pred proj1 proj2 = first1 + 1
          \<longleftrightarrow> \<not> ?m"
    using d by simp
  with n d m show ?thesis by simp
qed

theorem scan_not_pattern_witness:
  "valid_range ''Hello, world!'' 0 13 \<and> valid_range ''Hello'' 0 5 \<and> valid_range ''Bye'' 0 3
   \<and> detail_scan_not_fn_seq ''Hello, world!'' 0 13 ''Hello'' 0 5 (=) id id = 0
   \<and> detail_scan_not_fn_seq ''Hello, world!'' 0 13 ''Bye'' 0 3 (=) id id = 1
   \<and> module_scan_not_fn_seq ''Hello, world!'' 0 13 ''Bye'' 0 3 (=) id id = 1"
proof -
  have v1: "valid_range ''Hello, world!'' 0 13" by (simp add: valid_range_def)
  have v2: "valid_range ''Hello'' 0 5" by (simp add: valid_range_def)
  have v3: "valid_range ''Bye'' 0 3" by (simp add: valid_range_def)
  have p: "prefix_equals_pattern ''Hello, world!'' 0 13 ''Hello'' 0 5 (=) id id"
    by code_simp
  have q: "\<not> prefix_equals_pattern ''Hello, world!'' 0 13 ''Bye'' 0 3 (=) id id"
    by code_simp
  from scan_not_pattern_advances_by_one_iff_no_match[OF v1 v2, of "(=)" id id] p
  have a: "detail_scan_not_fn_seq ''Hello, world!'' 0 13 ''Hello'' 0 5 (=) id id = 0" by simp
  from scan_not_pattern_advances_by_one_iff_no_match[OF v1 v3, of "(=)" id id] q
  have b: "detail_scan_not_fn_seq ''Hello, world!'' 0 13 ''Bye'' 0 3 (=) id id = 1
         \<and> module_scan_not_fn_seq ''Hello, world!'' 0 13 ''Bye'' 0 3 (=) id id = 1" by simp
  from v1 v2 v3 a b show ?thesis by simp
qed

text \<open>
  Claim C10. With an empty source (\<open>first1 = last1\<close>) and a non-empty pattern, \<open>mismatch\<close>
  leaves \<open>in2\<close> different from \<open>last2\<close>, and the pattern form of \<open>scan_not\<close> returns
  \<open>first1 + 1\<close>, one step past the End Marker of the source: nothing in it checks that the
  source has an element to step over. Header and module alike.
\<close>

theorem scan_not_empty_source_steps_past_end:
  assumes "first2 \<noteq> last2"
  shows "in2 (mismatch src1 first1 first1 src2 first2 last2 pred proj1 proj2) \<noteq> last2
       \<and> detail_scan_not_fn_seq src1 first1 first1 src2 first2 last2 pred proj1 proj2 = first1 + 1
       \<and> module_scan_not_fn_seq src1 first1 first1 src2 first2 last2 pred proj1 proj2 = first1 + 1
       \<and> first1 < detail_scan_not_fn_seq src1 first1 first1 src2 first2 last2 pred proj1 proj2"
  using assms
  by (simp add: detail_scan_not_fn_seq_def module_scan_not_fn_seq_def mismatch_empty_source)

theorem scan_not_empty_source_witness:
  "(0::nat) \<noteq> 3
   \<and> detail_scan_not_fn_seq '''' 0 0 ''Bye'' 0 3 (=) id id = 1
   \<and> module_scan_not_fn_seq '''' 0 0 ''Bye'' 0 3 (=) id id = 1
   \<and> detail_scan_not_fn_seq ''Hello'' 5 5 ''Bye'' 0 3 (=) id id = 6"
proof -
  have h: "(0::nat) \<noteq> 3" by simp
  from scan_not_empty_source_steps_past_end[OF h, of "''''" 0 "''Bye''" "(=)" id id]
       scan_not_empty_source_steps_past_end[OF h, of "''Hello''" 5 "''Bye''" "(=)" id id] h
  show ?thesis by simp
qed

section \<open>scan_if and scan_if_not\<close>

text \<open>
  Claim C6, as amended. Given the same predicate, projection and source: when the source is
  not at its End Marker (\<open>first \<noteq> last'\<close>), exactly one of \<open>scan_if\<close> and \<open>scan_if_not\<close>
  advances, by one, and the other returns \<open>first\<close>; at the End Marker both return \<open>first\<close>,
  because both test \<open>first == last\<close> before they look at an element.
\<close>

theorem scan_if_complementary_before_end:
  "(first \<noteq> last' \<longrightarrow>
      (detail_scan_if_fn src first last' pred proj = first + 1
         \<and> detail_scan_if_not_fn src first last' pred proj = first)
    \<or> (detail_scan_if_fn src first last' pred proj = first
         \<and> detail_scan_if_not_fn src first last' pred proj = first + 1))
   \<and> (first = last' \<longrightarrow>
      detail_scan_if_fn src first last' pred proj = first
         \<and> detail_scan_if_not_fn src first last' pred proj = first)"
  by (simp add: detail_scan_if_fn_def detail_scan_if_not_fn_def)

theorem scan_if_complementary_witness:
  "(0::nat) \<noteq> 1
   \<and> detail_scan_if_fn ''H'' 0 1 ((=) (CHR ''H'')) id = 1
   \<and> detail_scan_if_not_fn ''H'' 0 1 ((=) (CHR ''H'')) id = 0
   \<and> detail_scan_if_fn ''H'' 0 1 ((=) (CHR ''B'')) id = 0
   \<and> detail_scan_if_not_fn ''H'' 0 1 ((=) (CHR ''B'')) id = 1
   \<and> detail_scan_if_fn ''H'' 1 1 ((=) (CHR ''B'')) id = 1
   \<and> detail_scan_if_not_fn ''H'' 1 1 ((=) (CHR ''B'')) id = 1"
  using scan_if_complementary_before_end [of 0 1 "''H''" "(=) (CHR ''H'')" id]
        scan_if_complementary_before_end [of 0 1 "''H''" "(=) (CHR ''B'')" id]
        scan_if_complementary_before_end [of 1 1 "''H''" "(=) (CHR ''B'')" id]
  by (simp add: detail_scan_if_fn_def detail_scan_if_not_fn_def)

text \<open>
  The claim as first stated, for all cursor / End Marker pairs, fails at the End Marker: with
  the source \<open>H\<close> read to its end, and with the empty source, neither \<open>scan_if\<close> nor
  \<open>scan_if_not\<close> advances: both return the input position.
\<close>

theorem scan_if_scan_if_not_both_stay_at_end:
  "detail_scan_if_fn ''H'' 1 1 ((=) (CHR ''H'')) id = 1
   \<and> detail_scan_if_not_fn ''H'' 1 1 ((=) (CHR ''H'')) id = 1
   \<and> detail_scan_if_fn '''' 0 0 ((=) (CHR ''H'')) id = 0
   \<and> detail_scan_if_not_fn '''' 0 0 ((=) (CHR ''H'')) id = 0"
  by (simp add: detail_scan_if_fn_def detail_scan_if_not_fn_def)

section \<open>scan_excluding\<close>

text \<open>
  Claim C4. For every cursor, End Marker and scanner: \<open>scan_excluding\<close> returns \<open>first + 1\<close>
  if and only if the scanner, invoked at \<open>first\<close>, returns \<open>first\<close> (no advancement); whenever
  the scanner returns any other position, \<open>scan_excluding\<close> returns \<open>first\<close> unchanged.
\<close>

theorem scan_excluding_advances_iff_scanner_does_not:
  "(scan_excluding_fn first last' scanner = first + 1 \<longleftrightarrow> scanner first last' = first)
   \<and> (scanner first last' \<noteq> first \<longrightarrow> scan_excluding_fn first last' scanner = first)"
  by (simp add: scan_excluding_fn_def)

theorem scan_excluding_witness:
  "scan_excluding_fn 0 13
     (\<lambda>f l. detail_scan_fn_value ''Hello, world!'' f l (CHR ''B'') (=) id) = 1
   \<and> scan_excluding_fn 0 13
     (\<lambda>f l. detail_scan_fn_value ''Hello, world!'' f l (CHR ''H'') (=) id) = 0"
  using scan_excluding_advances_iff_scanner_does_not
          [of 0 13 "\<lambda>f l. detail_scan_fn_value ''Hello, world!'' f l (CHR ''B'') (=) id"]
        scan_excluding_advances_iff_scanner_does_not
          [of 0 13 "\<lambda>f l. detail_scan_fn_value ''Hello, world!'' f l (CHR ''H'') (=) id"]
  by (simp add: detail_scan_fn_value_def)

text \<open>
  Claim C9. \<open>scan_excluding\<close> does not test for the end of the sequence: called at the End
  Marker (\<open>first = last'\<close>) with a scanner that returns its input position there, it returns
  \<open>last' + 1\<close>, one step past the End Marker, not the input position.
\<close>

theorem scan_excluding_at_end_steps_past_end:
  assumes "scanner last' last' = last'"
  shows "scan_excluding_fn last' last' scanner = last' + 1
       \<and> last' < scan_excluding_fn last' last' scanner"
  using assms by (simp add: scan_excluding_fn_def)

theorem scan_excluding_at_end_witness:
  "detail_scan_fn_value ''Hello'' 5 5 (CHR ''H'') (=) id = 5
   \<and> scan_excluding_fn 5 5 (\<lambda>f l. detail_scan_fn_value ''Hello'' f l (CHR ''H'') (=) id) = 6"
proof -
  have h: "(\<lambda>f l. detail_scan_fn_value ''Hello'' f l (CHR ''H'') (=) id) 5 5 = 5"
    by (simp add: detail_scan_fn_value_def)
  from scan_excluding_at_end_steps_past_end
         [of "\<lambda>f l. detail_scan_fn_value ''Hello'' f l (CHR ''H'') (=) id" 5, OF h] h
  show ?thesis by simp
qed

section \<open>scan_while_excluding\<close>

text \<open>
  Claim C5. When \<open>last'\<close> is reachable from \<open>first\<close>, \<open>scan_while_excluding\<close> terminates and
  returns a position \<open>r\<close> between \<open>first\<close> and \<open>last'\<close>, never past the end; \<open>r\<close> is the End Marker
  or a position where the scanner reports advancement, and at every position before \<open>r\<close> the
  scanner reported none, so the loop stopped at the first such position; if the scanner
  reports no advancement anywhere in the range, \<open>r\<close> is the End Marker.
\<close>

theorem scan_while_excluding_terminates_within_range:
  assumes "first \<le> last'"
  shows "\<exists>r. scan_while_excluding_fn first last' scanner = Some r
       \<and> first \<le> r \<and> r \<le> last'
       \<and> (r = last' \<or> scanner r last' \<noteq> r)
       \<and> (\<forall>p. first \<le> p \<and> p < r \<longrightarrow> scanner p last' = p)
       \<and> ((\<forall>p. first \<le> p \<and> p < last' \<longrightarrow> scanner p last' = p) \<longrightarrow> r = last')"
proof -
  from scan_while_excluding_fn_returns[OF assms, of scanner] obtain r where
    r: "scan_while_excluding_fn first last' scanner = Some r"
       "first \<le> r" "r \<le> last'" "r = last' \<or> scanner r last' \<noteq> r"
       "\<forall>p. first \<le> p \<and> p < r \<longrightarrow> scanner p last' = p"
    by blast
  have "r = last'" if a: "\<forall>p. first \<le> p \<and> p < last' \<longrightarrow> scanner p last' = p"
  proof (rule ccontr)
    assume "r \<noteq> last'"
    with r(3,4) have "r < last'" "scanner r last' \<noteq> r" by auto
    with a r(2) show False by blast
  qed
  with r show ?thesis by blast
qed

theorem scan_while_excluding_witness:
  "(0::nat) \<le> 13
   \<and> scan_while_excluding_fn 0 13
        (\<lambda>f l. detail_scan_fn_value ''Hello, world!'' f l (CHR '','') (=) id) = Some 5
   \<and> scan_while_excluding_fn 0 13
        (\<lambda>f l. detail_scan_fn_value ''Hello, world!'' f l (CHR ''#'') (=) id) = Some 13
   \<and> (\<exists>r. scan_while_excluding_fn 0 13
              (\<lambda>f l. detail_scan_fn_value ''Hello, world!'' f l (CHR '','') (=) id) = Some r
          \<and> r \<le> 13)"
proof -
  have h: "(0::nat) \<le> 13" by simp
  have a: "scan_while_excluding_fn 0 13
        (\<lambda>f l. detail_scan_fn_value ''Hello, world!'' f l (CHR '','') (=) id) = Some 5"
    by code_simp
  have b: "scan_while_excluding_fn 0 13
        (\<lambda>f l. detail_scan_fn_value ''Hello, world!'' f l (CHR ''#'') (=) id) = Some 13"
    by code_simp
  from scan_while_excluding_terminates_within_range[OF h,
         of "\<lambda>f l. detail_scan_fn_value ''Hello, world!'' f l (CHR '','') (=) id"]
  have c: "\<exists>r. scan_while_excluding_fn 0 13
              (\<lambda>f l. detail_scan_fn_value ''Hello, world!'' f l (CHR '','') (=) id) = Some r
          \<and> r \<le> 13"
    by blast
  from h a b c show ?thesis by blast
qed

section \<open>No match leaves the position unchanged\<close>

text \<open>
  Claim C1. For valid ranges and each of the six operations, when its match condition is false
  the returned position is the input position: \<open>scan\<close> and \<open>scan_if\<close> when the source is at its
  End Marker or the element does not satisfy the comparison or predicate, the pattern form of
  \<open>scan\<close> when the prefix does not equal the pattern; \<open>scan_not\<close> and \<open>scan_if_not\<close> when the
  element does satisfy it, the pattern form of \<open>scan_not\<close> when the prefix equals the pattern;
  \<open>scan_excluding\<close> when the scanner advances; \<open>scan_while_excluding\<close> when the source is at
  its End Marker or the scanner advances at \<open>first\<close>. No operation has an error result: five
  of them are total functions into positions, and \<open>scan_while_excluding\<close> always returns one.
\<close>

theorem no_match_returns_input_position:
  assumes "valid_range src first last'"
    and "valid_range src2 first2 last2"
    and "valid_range src3 first3 last3"
  shows
  "(\<not> (first \<noteq> last' \<and> pred (proj (src ! first)) val)
      \<longrightarrow> detail_scan_fn_value src first last' val pred proj = first)
 \<and> (\<not> prefix_equals_pattern src first last' src2 first2 last2 pred2 proj proj2
      \<longrightarrow> detail_scan_fn_seq src first last' src2 first2 last2 pred2 proj proj2 = first)
 \<and> (\<not> (first \<noteq> last' \<and> upred (proj (src ! first)))
      \<longrightarrow> detail_scan_if_fn src first last' upred proj = first)
 \<and> (\<not> (first \<noteq> last' \<and> \<not> pred (proj (src ! first)) val')
      \<longrightarrow> detail_scan_not_fn_value src first last' val' pred proj = first)
 \<and> (prefix_equals_pattern src first last' src3 first3 last3 pred2 proj proj2
      \<longrightarrow> detail_scan_not_fn_seq src first last' src3 first3 last3 pred2 proj proj2 = first)
 \<and> (\<not> (first \<noteq> last' \<and> \<not> upred' (proj (src ! first)))
      \<longrightarrow> detail_scan_if_not_fn src first last' upred' proj = first)
 \<and> (scanner first last' \<noteq> first \<longrightarrow> scan_excluding_fn first last' scanner = first)
 \<and> (\<not> (first \<noteq> last' \<and> scanner first last' = first)
      \<longrightarrow> scan_while_excluding_fn first last' scanner = Some first)
 \<and> (\<exists>r. scan_while_excluding_fn first last' scanner = Some r)"
proof -
  from assms have le: "first \<le> last'" "first2 \<le> last2" "first3 \<le> last3"
    by (simp_all add: valid_range_def)
  have a: "\<not> (first \<noteq> last' \<and> pred (proj (src ! first)) val)
      \<longrightarrow> detail_scan_fn_value src first last' val pred proj = first"
    by (simp add: detail_scan_fn_value_def)
  have b: "\<not> prefix_equals_pattern src first last' src2 first2 last2 pred2 proj proj2
      \<longrightarrow> detail_scan_fn_seq src first last' src2 first2 last2 pred2 proj proj2 = first"
    using mismatch_in2_last2[OF le(2), of src first last' src2 pred2 proj proj2]
    by (simp add: detail_scan_fn_seq_def Let_def)
  have c: "\<not> (first \<noteq> last' \<and> upred (proj (src ! first)))
      \<longrightarrow> detail_scan_if_fn src first last' upred proj = first"
    by (simp add: detail_scan_if_fn_def)
  have d: "\<not> (first \<noteq> last' \<and> \<not> pred (proj (src ! first)) val')
      \<longrightarrow> detail_scan_not_fn_value src first last' val' pred proj = first"
    by (simp add: detail_scan_not_fn_value_def)
  have e: "prefix_equals_pattern src first last' src3 first3 last3 pred2 proj proj2
      \<longrightarrow> detail_scan_not_fn_seq src first last' src3 first3 last3 pred2 proj proj2 = first"
    using mismatch_in2_last2[OF le(3), of src first last' src3 pred2 proj proj2]
    by (simp add: detail_scan_not_fn_seq_def Let_def)
  have f: "\<not> (first \<noteq> last' \<and> \<not> upred' (proj (src ! first)))
      \<longrightarrow> detail_scan_if_not_fn src first last' upred' proj = first"
    by (simp add: detail_scan_if_not_fn_def)
  have g: "scanner first last' \<noteq> first \<longrightarrow> scan_excluding_fn first last' scanner = first"
    by (simp add: scan_excluding_fn_def)
  have h: "\<not> (first \<noteq> last' \<and> scanner first last' = first)
      \<longrightarrow> scan_while_excluding_fn first last' scanner = Some first"
    using scan_while_excluding_fn_stop[of first last' scanner] by blast
  have i: "\<exists>r. scan_while_excluding_fn first last' scanner = Some r"
    using scan_while_excluding_fn_returns[OF le(1), of scanner] by blast
  from a b c d e f g h i show ?thesis by blast
qed


theorem no_match_witness:
  "valid_range ''Hello, world!'' 0 13 \<and> valid_range ''Bye'' 0 3 \<and> valid_range ''Hello'' 0 5
   \<and> detail_scan_fn_value ''Hello, world!'' 0 13 (CHR ''B'') (=) id = 0
   \<and> detail_scan_fn_seq ''Hello, world!'' 0 13 ''Bye'' 0 3 (=) id id = 0
   \<and> detail_scan_if_fn ''Hello, world!'' 0 13 ((=) (CHR ''B'')) id = 0
   \<and> detail_scan_not_fn_value ''Hello, world!'' 0 13 (CHR ''H'') (=) id = 0
   \<and> detail_scan_not_fn_seq ''Hello, world!'' 0 13 ''Hello'' 0 5 (=) id id = 0
   \<and> detail_scan_if_not_fn ''Hello, world!'' 0 13 ((=) (CHR ''H'')) id = 0
   \<and> scan_excluding_fn 0 13
        (\<lambda>f l. detail_scan_fn_value ''Hello, world!'' f l (CHR ''H'') (=) id) = 0
   \<and> scan_while_excluding_fn 0 13
        (\<lambda>f l. detail_scan_fn_value ''Hello, world!'' f l (CHR ''H'') (=) id) = Some 0"
proof -
  have v1: "valid_range ''Hello, world!'' 0 13" by (simp add: valid_range_def)
  have v2: "valid_range ''Bye'' 0 3" by (simp add: valid_range_def)
  have v3: "valid_range ''Hello'' 0 5" by (simp add: valid_range_def)
  have q: "\<not> prefix_equals_pattern ''Hello, world!'' 0 13 ''Bye'' 0 3 (=) id id"
    by code_simp
  have p: "prefix_equals_pattern ''Hello, world!'' 0 13 ''Hello'' 0 5 (=) id id"
    by code_simp
  have s: "(\<lambda>f l. detail_scan_fn_value ''Hello, world!'' f l (CHR ''H'') (=) id) 0 13 \<noteq> 0"
    by (simp add: detail_scan_fn_value_def)
  from no_match_returns_input_position[OF v1 v2 v3,
         of "(=)" id "CHR ''B''" "(=)" id "(=) (CHR ''B'')" "CHR ''H''" "(=) (CHR ''H'')"
            "\<lambda>f l. detail_scan_fn_value ''Hello, world!'' f l (CHR ''H'') (=) id"]
       v1 v2 v3 p q s
  show ?thesis by simp
qed

section \<open>Header and module\<close>

text \<open>
  Apart from the value forms of \<open>scan\<close>, the module's operations return the position the
  header's return, in every overload and for every cursor, End Marker, value or pattern,
  comparison policy and projection; and so does overload 1 of the module's \<open>scan_fn\<close> when it
  is called on a non-const object.
\<close>

lemma module_agrees_with_header_elsewhere:
  "module_scan_fn_value NonConstObject src first last' val pred proj
     = Inr (detail_scan_fn_value src first last' val pred proj)
   \<and> module_scan_fn_seq src first last' src2 first2 last2 pred2 proj proj2
     = detail_scan_fn_seq src first last' src2 first2 last2 pred2 proj proj2
   \<and> module_scan_fn_range_seq src src2 first2 last2 pred2 proj proj2
     = detail_scan_fn_range_seq src src2 first2 last2 pred2 proj proj2
   \<and> module_scan_fn_seq_range src first last' src2 pred2 proj proj2
     = detail_scan_fn_seq_range src first last' src2 pred2 proj proj2
   \<and> module_scan_fn_range_range src src2 pred2 proj proj2
     = detail_scan_fn_range_range src src2 pred2 proj proj2
   \<and> module_scan_if_fn src first last' upred proj
     = detail_scan_if_fn src first last' upred proj
   \<and> module_scan_if_fn_range src upred proj
     = detail_scan_if_fn_range src upred proj
   \<and> module_scan_not_fn_value src first last' val pred proj
     = detail_scan_not_fn_value src first last' val pred proj
   \<and> module_scan_not_fn_range_value src val pred proj
     = detail_scan_not_fn_range_value src val pred proj
   \<and> module_scan_not_fn_seq src first last' src2 first2 last2 pred2 proj proj2
     = detail_scan_not_fn_seq src first last' src2 first2 last2 pred2 proj proj2
   \<and> module_scan_not_fn_range_seq src src2 first2 last2 pred2 proj proj2
     = detail_scan_not_fn_range_seq src src2 first2 last2 pred2 proj proj2
   \<and> module_scan_not_fn_seq_range src first last' src2 pred2 proj proj2
     = detail_scan_not_fn_seq_range src first last' src2 pred2 proj proj2
   \<and> module_scan_not_fn_range_range src src2 pred2 proj proj2
     = detail_scan_not_fn_range_range src src2 pred2 proj proj2
   \<and> module_scan_if_not_fn src first last' upred proj
     = detail_scan_if_not_fn src first last' upred proj
   \<and> module_scan_if_not_fn_range src upred proj
     = detail_scan_if_not_fn_range src upred proj"
  by (simp add:
          module_scan_fn_value_def detail_scan_fn_value_def
          module_scan_fn_seq_def detail_scan_fn_seq_def
          module_scan_if_fn_def detail_scan_if_fn_def
          module_scan_not_fn_value_def detail_scan_not_fn_value_def
          module_scan_not_fn_seq_def detail_scan_not_fn_seq_def
          module_scan_if_not_fn_def detail_scan_if_not_fn_def
          module_scan_fn_range_seq_def detail_scan_fn_range_seq_def
          module_scan_fn_seq_range_def detail_scan_fn_seq_range_def
          module_scan_fn_range_range_def detail_scan_fn_range_range_def
          module_scan_if_fn_range_def detail_scan_if_fn_range_def
          module_scan_not_fn_range_value_def detail_scan_not_fn_range_value_def
          module_scan_not_fn_range_seq_def detail_scan_not_fn_range_seq_def
          module_scan_not_fn_seq_range_def detail_scan_not_fn_seq_range_def
          module_scan_not_fn_range_range_def detail_scan_not_fn_range_range_def
          module_scan_if_not_fn_range_def detail_scan_if_not_fn_range_def)

text \<open>
  Claim C8 says that header and module return the same position for every input. They do not
  for the value forms of \<open>scan\<close>: on the source \<open>Hello, world!\<close> and the value \<open>H\<close>, with the
  default comparison and projection, the header's \<open>scan(first, last, 'H')\<close> and
  \<open>scan(source, 'H')\<close> return \<open>first + 1\<close>, as the documentation and the tests say; in the
  module the same calls, on the exported const object \<open>scan\<close> and from the const overload 2,
  reach the one overload that is not \<open>const\<close>, find no viable overload, and return no position.
\<close>

theorem module_scan_value_forms_have_no_viable_overload:
  "detail_scan_fn_value ''Hello, world!'' 0 13 (CHR ''H'') (=) id = 1
   \<and> module_scan_fn_value module_scan ''Hello, world!'' 0 13 (CHR ''H'') (=) id
       = Inl NoViableOverload
   \<and> detail_scan_fn_range_value ''Hello, world!'' (CHR ''H'') (=) id = 1
   \<and> module_scan_fn_range_value ''Hello, world!'' (CHR ''H'') (=) id
       = Inl NoViableOverload"
  by (simp add: detail_scan_fn_value_def detail_scan_fn_range_value_def
        module_scan_fn_value_def module_scan_fn_range_value_def module_scan_def)

end
